theory Spec2Isabelle
  imports Main "HOL-Library.Sublist"
begin

section \<open>Requests, responses and the router\<close>

text \<open>
  The worker of \<^verbatim>\<open>src/index.js\<close> is event driven: \<^verbatim>\<open>handleWebSocket\<close> creates one
  session and registers listeners on the two sockets and one timer; afterwards the
  runtime invokes one listener at a time, each running to completion. The embedding keeps
  this shape: every listener is a function on the session state, and a session is a list
  of events folded over the state.

  A request is reduced to the three attributes the code reads: the value of
  \<^verbatim>\<open>request.headers.get('Upgrade')\<close> (\<open>None\<close> for \<^verbatim>\<open>null\<close>), \<^verbatim>\<open>url.pathname\<close> and
  \<^verbatim>\<open>url.search\<close>.
\<close>

record request =
  upgrade :: "string option"
  pathname :: string
  search :: string

record response =
  status :: int
  body :: "string option"
  headers :: "(string \<times> string) list"
  webSocket :: bool

text \<open>
  The branch \<^verbatim>\<open>fetch\<close> takes (lines 6-54). The key-value store of static assets is the
  parameter \<open>kv\<close>; an asset that is absent or the empty string is falsy in the source.
\<close>

datatype route =
    ToHandleWebSocket
  | ToHandleAPIRequest
  | ToIndexHtml
  | ToAsset string
  | ToNotFound

definition fetch_route :: "(string \<Rightarrow> string option) \<Rightarrow> request \<Rightarrow> route" where
  "fetch_route kv req =
     (if upgrade req = Some ''websocket'' then ToHandleWebSocket
      else if suffix ''/chat/completions'' (pathname req)
              \<or> suffix ''/embeddings'' (pathname req)
              \<or> suffix ''/models'' (pathname req) then ToHandleAPIRequest
      else if pathname req = ''/'' \<or> pathname req = ''/index.html'' then ToIndexHtml
      else (case kv (drop 1 (pathname req)) of
              None \<Rightarrow> ToNotFound
            | Some asset \<Rightarrow> if asset = [] then ToNotFound else ToAsset asset))"

section \<open>The relay session\<close>

text \<open>
  A frame is the \<^verbatim>\<open>event.data\<close> of a message event, text or binary; the relay never
  looks inside it.
\<close>

datatype frame = Text string | Binary "nat list"

datatype socket = targetWebSocket | proxy

datatype readyState = CONNECTING | OPEN | CLOSING | CLOSED

text \<open>
  The calls the relay makes on the two sockets are the observable output of a session;
  they are recorded oldest first. A \<open>Send\<close> entry is one call of \<^verbatim>\<open>send\<close>, whether or
  not the runtime accepts it.
\<close>

datatype call = Send socket frame | Close socket int string

record session =
  pendingMessages :: "frame list"
  target_readyState :: readyState
  proxy_readyState :: readyState
  timeoutId :: bool
  calls :: "call list"
  console_errors :: "string list"

text \<open>
  \<open>timeoutId s\<close> holds while the timer set at line 80 is still scheduled: it has neither
  fired nor been cleared. Whether a call of \<^verbatim>\<open>send\<close> throws is decided by the runtime;
  it is the parameter \<open>thr\<close>, which may depend on everything done so far.
\<close>

type_synonym send_oracle = "call list \<Rightarrow> socket \<Rightarrow> frame \<Rightarrow> bool"

definition MAX_PENDING_MESSAGES :: nat where
  "MAX_PENDING_MESSAGES = 10"

definition never_throws :: send_oracle where
  "never_throws cs k m = False"

text \<open>
  \<^verbatim>\<open>socket.close(code, reason)\<close>: the call is recorded, and a socket that was connecting or
  open is closing from then on (the WebSocket interface's effect on \<^verbatim>\<open>readyState\<close> when
  it accepts the call). A runtime that refuses the call, as for a reserved close code,
  leaves \<^verbatim>\<open>readyState\<close> as it was; the source does not decide this, and what is proved
  about close calls below concerns the call made, not the \<^verbatim>\<open>readyState\<close> after it.
\<close>

definition closing_state :: "readyState \<Rightarrow> readyState" where
  "closing_state rs = (if rs = CONNECTING \<or> rs = OPEN then CLOSING else rs)"

definition ws_close :: "socket \<Rightarrow> int \<Rightarrow> string \<Rightarrow> session \<Rightarrow> session" where
  "ws_close k code reason s =
     (case k of
        targetWebSocket \<Rightarrow>
          s\<lparr>target_readyState := closing_state (target_readyState s),
            calls := calls s @ [Close k code reason]\<rparr>
      | proxy \<Rightarrow>
          s\<lparr>proxy_readyState := closing_state (proxy_readyState s),
            calls := calls s @ [Close k code reason]\<rparr>)"

text \<open>
  \<^verbatim>\<open>try { socket.send(m) } catch (error) { console.error(label, error) }\<close>: the call is
  recorded; when it throws, the catch block logs under \<open>label\<close> and nothing else happens.
\<close>

definition ws_send :: "send_oracle \<Rightarrow> socket \<Rightarrow> string \<Rightarrow> frame \<Rightarrow> session \<Rightarrow> session" where
  "ws_send thr k label m s =
     (if thr (calls s) k m
      then s\<lparr>calls := calls s @ [Send k m], console_errors := console_errors s @ [label]\<rparr>
      else s\<lparr>calls := calls s @ [Send k m]\<rparr>)"

subsection \<open>The listeners\<close>

text \<open>The timer callback, lines 80-85.\<close>

definition timeout_callback :: "session \<Rightarrow> session" where
  "timeout_callback s =
     (if length (pendingMessages s) = 0
      then ws_close targetWebSocket 1000 ''No activity after connection'' s
      else s)"

text \<open>The loop of lines 93-100 over the pending messages.\<close>

fun send_pending :: "send_oracle \<Rightarrow> frame list \<Rightarrow> session \<Rightarrow> session" where
  "send_pending thr [] s = s"
| "send_pending thr (message # rest) s =
     send_pending thr rest
       (ws_send thr targetWebSocket ''Error sending pending message:'' message s)"

text \<open>The open listener of the upstream socket, lines 87-102.\<close>

definition target_on_open :: "send_oracle \<Rightarrow> session \<Rightarrow> session" where
  "target_on_open thr s =
     (send_pending thr (pendingMessages s) (s\<lparr>timeoutId := False\<rparr>))\<lparr>pendingMessages := []\<rparr>"

text \<open>The message listener of the client socket, lines 104-128.\<close>

definition proxy_on_message :: "send_oracle \<Rightarrow> frame \<Rightarrow> session \<Rightarrow> session" where
  "proxy_on_message thr m s =
     (if target_readyState s = OPEN
      then ws_send thr targetWebSocket ''Error sending to target server:'' m s
      else if length (pendingMessages s) \<ge> MAX_PENDING_MESSAGES
      then ws_close proxy 1008 ''Too many pending messages'' s
      else s\<lparr>pendingMessages := pendingMessages s @ [m]\<rparr>)"

text \<open>The message listener of the upstream socket, lines 130-145.\<close>

definition target_on_message :: "send_oracle \<Rightarrow> frame \<Rightarrow> session \<Rightarrow> session" where
  "target_on_message thr m s =
     (if proxy_readyState s = OPEN
      then ws_send thr proxy ''Error forwarding to client:'' m s
      else s)"

text \<open>The two close listeners, lines 147-158 and 160-170.\<close>

definition target_on_close :: "int \<Rightarrow> string \<Rightarrow> session \<Rightarrow> session" where
  "target_on_close code reason s =
     (if proxy_readyState s = OPEN then ws_close proxy code reason s else s)"

definition proxy_on_close :: "int \<Rightarrow> string \<Rightarrow> session \<Rightarrow> session" where
  "proxy_on_close code reason s =
     (if target_readyState s = OPEN then ws_close targetWebSocket code reason s else s)"

text \<open>The error listener of the upstream socket, lines 172-178: it logs.\<close>

definition target_on_error :: "string \<Rightarrow> session \<Rightarrow> session" where
  "target_on_error msg s =
     s\<lparr>console_errors := console_errors s @ [''Target server WebSocket error:'']\<rparr>"

subsection \<open>Events\<close>

text \<open>
  One event is one listener invocation by the runtime. Before the listener runs the
  runtime has moved the socket the event is about: an open event finds the upstream
  socket \<open>OPEN\<close>, a close event finds its socket \<open>CLOSED\<close>. The timer callback runs at
  most once and never after \<^verbatim>\<open>clearTimeout\<close>. No listener is registered for an error
  on the client socket. The events may come in any order.
\<close>

datatype event =
    TargetOpen
  | TargetMessage frame
  | TargetClose int string
  | TargetError string
  | ProxyMessage frame
  | ProxyClose int string
  | ProxyError
  | TimerFired

definition step :: "send_oracle \<Rightarrow> event \<Rightarrow> session \<Rightarrow> session" where
  "step thr e s =
     (case e of
        TargetOpen \<Rightarrow> target_on_open thr (s\<lparr>target_readyState := OPEN\<rparr>)
      | TargetMessage m \<Rightarrow> target_on_message thr m s
      | TargetClose code reason \<Rightarrow> target_on_close code reason (s\<lparr>target_readyState := CLOSED\<rparr>)
      | TargetError msg \<Rightarrow> target_on_error msg s
      | ProxyMessage m \<Rightarrow> proxy_on_message thr m s
      | ProxyClose code reason \<Rightarrow> proxy_on_close code reason (s\<lparr>proxy_readyState := CLOSED\<rparr>)
      | ProxyError \<Rightarrow> s
      | TimerFired \<Rightarrow> if timeoutId s then timeout_callback (s\<lparr>timeoutId := False\<rparr>) else s)"

fun run :: "send_oracle \<Rightarrow> event list \<Rightarrow> session \<Rightarrow> session" where
  "run thr [] s = s"
| "run thr (e # es) s = run thr es (step thr e s)"

subsection \<open>Establishing a session\<close>

text \<open>
  The state \<^verbatim>\<open>handleWebSocket\<close> leaves behind when it returns (lines 68-85): the client
  socket accepted, the buffer empty, the upstream socket connecting, the timer set.
\<close>

definition new_session :: session where
  "new_session =
     \<lparr>pendingMessages = [], target_readyState = CONNECTING, proxy_readyState = OPEN,
      timeoutId = True, calls = [], console_errors = []\<rparr>"

datatype upgrade_result =
    Refused response
  | Upgraded response string session

definition handleWebSocket :: "request \<Rightarrow> upgrade_result" where
  "handleWebSocket req =
     (if upgrade req \<noteq> Some ''websocket''
      then Refused \<lparr>status = 400, body = Some ''Expected WebSocket connection'',
                    headers = [], webSocket = False\<rparr>
      else Upgraded \<lparr>status = 101, body = None, headers = [], webSocket = True\<rparr>
             (''wss://generativelanguage.googleapis.com'' @ pathname req @ search req)
             new_session)"

subsection \<open>Observations on a session\<close>

fun sent_to :: "socket \<Rightarrow> call list \<Rightarrow> frame list" where
  "sent_to k [] = []"
| "sent_to k (Send k' m # cs) = (if k' = k then m # sent_to k cs else sent_to k cs)"
| "sent_to k (Close k' code reason # cs) = sent_to k cs"

fun closes_of :: "socket \<Rightarrow> call list \<Rightarrow> (int \<times> string) list" where
  "closes_of k [] = []"
| "closes_of k (Send k' m # cs) = closes_of k cs"
| "closes_of k (Close k' code reason # cs) =
     (if k' = k then (code, reason) # closes_of k cs else closes_of k cs)"

fun client_frames :: "event list \<Rightarrow> frame list" where
  "client_frames [] = []"
| "client_frames (ProxyMessage m # es) = m # client_frames es"
| "client_frames (e # es) = client_frames es"

fun upstream_frames :: "event list \<Rightarrow> frame list" where
  "upstream_frames [] = []"
| "upstream_frames (TargetMessage m # es) = m # upstream_frames es"
| "upstream_frames (e # es) = upstream_frames es"

text \<open>A burst of eleven client frames, one more than the buffer holds.\<close>

definition eleven_frames :: "frame list" where
  "eleven_frames =
     [Text ''f1'', Text ''f2'', Text ''f3'', Text ''f4'', Text ''f5'', Text ''f6'',
      Text ''f7'', Text ''f8'', Text ''f9'', Text ''f10'', Text ''f11'']"

subsection \<open>Invariants of a session\<close>

text \<open>
  Pass-through mode: both sockets open, the timer cleared, the buffer drained. While the
  timer is still scheduled the open listener has not run, so the upstream socket is not
  open; and once a client frame has been buffered the timer finds the buffer non-empty.
\<close>

definition passing_through :: "session \<Rightarrow> bool" where
  "passing_through s \<longleftrightarrow>
     target_readyState s = OPEN \<and> proxy_readyState s = OPEN \<and> \<not> timeoutId s
     \<and> pendingMessages s = []"

definition open_clears_timer :: "session \<Rightarrow> bool" where
  "open_clears_timer s \<longleftrightarrow> (timeoutId s \<longrightarrow> target_readyState s \<noteq> OPEN)"

definition timer_harmless :: "session \<Rightarrow> bool" where
  "timer_harmless s \<longleftrightarrow> (timeoutId s \<longrightarrow> pendingMessages s \<noteq> [])"

fun is_proxy_close :: "event \<Rightarrow> bool" where
  "is_proxy_close (ProxyClose code reason) = True"
| "is_proxy_close e = False"

fun is_client_frame :: "event \<Rightarrow> bool" where
  "is_client_frame (ProxyMessage m) = True"
| "is_client_frame e = False"

fun is_close_event :: "event \<Rightarrow> bool" where
  "is_close_event (TargetClose code reason) = True"
| "is_close_event (ProxyClose code reason) = True"
| "is_close_event e = False"

section \<open>The HTTP timeout guard\<close>

text \<open>
  \<^verbatim>\<open>handleAPIRequest\<close> (lines 186-206) awaits the race of the forwarding call against a
  timer of \<^verbatim>\<open>API_TIMEOUT\<close> = 15000 ms. The forwarding module
  \<^verbatim>\<open>api_proxy/worker.mjs\<close> and the clock are outside the file, so the input of the
  model is how the \<^verbatim>\<open>try\<close> block ends: the forwarding call resolved first, something
  was thrown or rejected first (by the import, the call itself or its promise), or the
  deadline elapsed first.

  A thrown JavaScript value is reduced to what the catch block reads: whether it is an
  instance of \<^verbatim>\<open>Error\<close>, its \<^verbatim>\<open>message\<close> and its \<^verbatim>\<open>status\<close> (\<open>None\<close> when the
  property is absent). \<open>PlainValue\<close> is any other object or primitive, \<open>Nullish\<close> is
  \<^verbatim>\<open>null\<close> or \<^verbatim>\<open>undefined\<close>, on which reading a property throws.
\<close>

datatype thrown =
    ErrorInstance string "int option"
  | PlainValue "string option" "int option"
  | Nullish

datatype js_exception = TypeError | RangeError

datatype race_outcome =
    Resolved response
  | Rejected thrown
  | DeadlineElapsed

text \<open>\<^verbatim>\<open>error.status || 500\<close>: an absent status and the status 0 are falsy.\<close>

definition status_or_500 :: "int option \<Rightarrow> int" where
  "status_or_500 st = (case st of None \<Rightarrow> 500 | Some n \<Rightarrow> if n = 0 then 500 else n)"

text \<open>
  \<^verbatim>\<open>new Response(text, {status, headers})\<close> with a text body: the constructor of the Fetch
  interface throws a \<^verbatim>\<open>RangeError\<close> for a status outside 200..599 and a \<^verbatim>\<open>TypeError\<close>
  for a body on a null-body status.
\<close>

definition response_status_ok :: "int \<Rightarrow> bool" where
  "response_status_ok st = (200 \<le> st \<and> st \<le> 599 \<and> st \<noteq> 204 \<and> st \<noteq> 205 \<and> st \<noteq> 304)"

definition new_Response :: "string \<Rightarrow> int \<Rightarrow> (string \<times> string) list \<Rightarrow> js_exception + response" where
  "new_Response text st hs =
     (if st < 200 \<or> 599 < st then Inl RangeError
      else if st = 204 \<or> st = 205 \<or> st = 304 then Inl TypeError
      else Inr \<lparr>status = st, body = Some text, headers = hs, webSocket = False\<rparr>)"

definition catch_block :: "thrown \<Rightarrow> js_exception + response" where
  "catch_block error =
     (case error of
        ErrorInstance msg st \<Rightarrow>
          new_Response msg (status_or_500 st) [(''content-type'', ''text/plain;charset=UTF-8'')]
      | PlainValue msg st \<Rightarrow>
          new_Response ''Unknown error occurred'' (status_or_500 st)
            [(''content-type'', ''text/plain;charset=UTF-8'')]
      | Nullish \<Rightarrow> Inl TypeError)"

definition handleAPIRequest :: "race_outcome \<Rightarrow> js_exception + response" where
  "handleAPIRequest outcome =
     (case outcome of
        Resolved r \<Rightarrow> Inr r
      | Rejected error \<Rightarrow> catch_block error
      | DeadlineElapsed \<Rightarrow> catch_block (ErrorInstance ''API request timeout'' None))"

section \<open>The entry point\<close>

text \<open>
  \<^verbatim>\<open>fetch\<close> (lines 6-54) is the only export of the module: every inbound request
  passes through it. Its answer is that of the branch it takes. The index page comes from
  the edge cache or the key-value store and an asset is served with a content type looked
  up by extension; both are outside the relay and are kept abstract. \<open>outcome\<close> is how
  the guarded forwarding call ends, should the request be an API request.
\<close>

datatype fetch_result =
    WebSocketResult upgrade_result
  | APIResult "js_exception + response"
  | IndexResult
  | AssetResult string
  | NotFoundResult response

definition fetch :: "(string \<Rightarrow> string option) \<Rightarrow> race_outcome \<Rightarrow> request \<Rightarrow> fetch_result" where
  "fetch kv outcome req =
     (case fetch_route kv req of
        ToHandleWebSocket \<Rightarrow> WebSocketResult (handleWebSocket req)
      | ToHandleAPIRequest \<Rightarrow> APIResult (handleAPIRequest outcome)
      | ToIndexHtml \<Rightarrow> IndexResult
      | ToAsset asset \<Rightarrow> AssetResult asset
      | ToNotFound \<Rightarrow>
          NotFoundResult \<lparr>status = 404, body = Some ''Not found'', headers = [],
                          webSocket = False\<rparr>)"

section \<open>Basic facts\<close>

lemma run_append: "run thr (es @ es') s = run thr es' (run thr es s)"
  by (induction es arbitrary: s) simp_all

lemma sent_to_append: "sent_to k (cs @ cs') = sent_to k cs @ sent_to k cs'"
  by (induction k cs rule: sent_to.induct) simp_all

lemma closes_of_append: "closes_of k (cs @ cs') = closes_of k cs @ closes_of k cs'"
  by (induction k cs rule: closes_of.induct) simp_all

lemma client_frames_append: "client_frames (es @ es') = client_frames es @ client_frames es'"
  by (induction es rule: client_frames.induct) simp_all

lemmas handler_defs = step_def target_on_open_def proxy_on_message_def target_on_message_def
  target_on_close_def proxy_on_close_def target_on_error_def timeout_callback_def
  ws_close_def ws_send_def

lemma sent_to_map_Send: "sent_to k (map (Send k) ms) = ms"
  by (induction ms) simp_all

lemma closes_of_map_Send: "closes_of k (map (Send k') ms) = []"
  by (induction ms) simp_all

text \<open>The loop over the buffer makes one call of \<^verbatim>\<open>send\<close> per buffered frame, in order, and
  touches nothing else but the error log.\<close>

lemma calls_send_pending:
  "calls (send_pending thr ms s) = calls s @ map (Send targetWebSocket) ms"
  by (induction ms arbitrary: s) (simp_all add: ws_send_def)

lemma send_pending_fields:
  "pendingMessages (send_pending thr ms s) = pendingMessages s"
  "target_readyState (send_pending thr ms s) = target_readyState s"
  "proxy_readyState (send_pending thr ms s) = proxy_readyState s"
  "timeoutId (send_pending thr ms s) = timeoutId s"
  by (induction ms arbitrary: s) (simp_all add: ws_send_def)


text \<open>The router hands a request to \<^verbatim>\<open>handleWebSocket\<close> exactly when its Upgrade header
  is the string \<^verbatim>\<open>websocket\<close>.\<close>

lemma fetch_reaches_handleWebSocket:
  "fetch_route kv req = ToHandleWebSocket \<longleftrightarrow> upgrade req = Some ''websocket''"
  by (simp add: fetch_route_def split: option.splits)

section \<open>The establishment timer\<close>

text \<open>
  C3, as the code has it. When the establishment timer fires while the pending buffer is
  empty, the upstream socket is closed with code 1000 and the reason
  "No activity after connection" (capital N); when the buffer is not empty the firing
  does nothing but use the timer up.
\<close>

theorem C3_timer_fires:
  "(timeoutId s \<and> pendingMessages s = [] \<longrightarrow>
      step thr TimerFired s =
        s\<lparr>target_readyState := closing_state (target_readyState s), timeoutId := False,
          calls := calls s @ [Close targetWebSocket 1000 ''No activity after connection'']\<rparr>)
   \<and> (timeoutId s \<and> pendingMessages s \<noteq> [] \<longrightarrow> step thr TimerFired s = s\<lparr>timeoutId := False\<rparr>)"
  by (simp add: step_def timeout_callback_def ws_close_def)

theorem C3_timer_fires_witness:
  "calls (step never_throws TimerFired new_session) =
      [Close targetWebSocket 1000 ''No activity after connection'']
   \<and> target_readyState (step never_throws TimerFired new_session) = CLOSING
   \<and> step never_throws TimerFired (new_session\<lparr>pendingMessages := [Text ''hello'']\<rparr>)
       = new_session\<lparr>pendingMessages := [Text ''hello''], timeoutId := False\<rparr>"
  using C3_timer_fires [of new_session never_throws]
    C3_timer_fires [of "new_session\<lparr>pendingMessages := [Text ''hello'']\<rparr>" never_throws]
  by (simp add: new_session_def closing_state_def)

text \<open>
  C3 as the specification words it gives the reason in lower case. On a fresh session the
  timer closes the upstream socket, and not with that reason.
\<close>

theorem C3_reason_counterexample:
  "timeoutId new_session \<and> pendingMessages new_session = []
   \<and> closes_of targetWebSocket (calls (step never_throws TimerFired new_session))
       \<noteq> [(1000, ''no activity after connection'')]"
  by (simp add: step_def timeout_callback_def ws_close_def new_session_def)

section \<open>Closure\<close>

text \<open>
  C5, as the code has it. A close event on one socket closes the other socket with the
  same code and reason when that other socket is open, and makes no call when it is not.
  An error event on the upstream socket is logged and closes nothing; an error event on
  the client socket has no listener.
\<close>

theorem C5_close_mirrored:
  "(proxy_readyState s = OPEN \<longrightarrow>
      calls (step thr (TargetClose code reason) s) = calls s @ [Close proxy code reason])
   \<and> (proxy_readyState s \<noteq> OPEN \<longrightarrow>
      calls (step thr (TargetClose code reason) s) = calls s)
   \<and> (target_readyState s = OPEN \<longrightarrow>
      calls (step thr (ProxyClose code reason) s) = calls s @ [Close targetWebSocket code reason])
   \<and> (target_readyState s \<noteq> OPEN \<longrightarrow>
      calls (step thr (ProxyClose code reason) s) = calls s)
   \<and> calls (step thr (TargetError msg) s) = calls s
   \<and> step thr ProxyError s = s"
  by (simp add: handler_defs)

theorem C5_close_mirrored_witness:
  "proxy_readyState new_session = OPEN
   \<and> calls (step never_throws (TargetClose 1000 ''bye'') new_session) = [Close proxy 1000 ''bye'']
   \<and> target_readyState (new_session\<lparr>target_readyState := OPEN\<rparr>) = OPEN
   \<and> calls (step never_throws (ProxyClose 1000 ''bye'') (new_session\<lparr>target_readyState := OPEN\<rparr>))
       = [Close targetWebSocket 1000 ''bye'']
   \<and> calls (step never_throws (ProxyClose 1000 ''bye'') new_session) = []"
  using C5_close_mirrored [of new_session never_throws 1000 "''bye''"]
    C5_close_mirrored [of "new_session\<lparr>target_readyState := OPEN\<rparr>" never_throws 1000 "''bye''"]
  by (simp add: new_session_def)

text \<open>
  C5 as stated also lets an error event close the other socket. With both sockets open,
  an error event on either socket leaves the list of calls empty.
\<close>

theorem C5_error_counterexample:
  "proxy_readyState (run never_throws [TargetOpen] new_session) = OPEN
   \<and> target_readyState (run never_throws [TargetOpen] new_session) = OPEN
   \<and> calls (run never_throws [TargetOpen, TargetError ''boom''] new_session) = []
   \<and> calls (run never_throws [TargetOpen, ProxyError] new_session) = []"
  by (simp add: handler_defs new_session_def)

section \<open>The pending buffer\<close>

text \<open>The calls of a session only grow, and the buffer never exceeds its capacity.\<close>

lemma calls_step_grow: "\<exists>cs. calls (step thr e s) = calls s @ cs"
  by (cases e) (simp_all add: handler_defs calls_send_pending)

lemma calls_run_grow: "\<exists>cs. calls (run thr es s) = calls s @ cs"
proof (induction es arbitrary: s)
  case Nil
  then show ?case by simp
next
  case (Cons e es)
  obtain cs where a: "calls (step thr e s) = calls s @ cs"
    using calls_step_grow by blast
  obtain cs' where b: "calls (run thr es (step thr e s)) = calls (step thr e s) @ cs'"
    using Cons.IH by blast
  from a b show ?case by simp
qed

lemma pending_bounded_step:
  "length (pendingMessages s) \<le> MAX_PENDING_MESSAGES \<Longrightarrow>
     length (pendingMessages (step thr e s)) \<le> MAX_PENDING_MESSAGES"
  by (cases e) (simp_all add: handler_defs send_pending_fields MAX_PENDING_MESSAGES_def)

lemma pending_bounded_run:
  "length (pendingMessages s) \<le> MAX_PENDING_MESSAGES \<Longrightarrow>
     length (pendingMessages (run thr es s)) \<le> MAX_PENDING_MESSAGES"
  by (induction es arbitrary: s) (simp_all add: pending_bounded_step)

lemma pending_bounded: "length (pendingMessages (run thr es new_session)) \<le> MAX_PENDING_MESSAGES"
  by (rule pending_bounded_run) (simp add: new_session_def)

text \<open>While the upstream socket has not opened, client frames fill the buffer up to its
  capacity and nothing is sent upstream.\<close>

lemma connecting_step:
  assumes "e \<noteq> TargetOpen" "target_readyState s \<noteq> OPEN"
    "length (pendingMessages s) \<le> MAX_PENDING_MESSAGES"
  shows "target_readyState (step thr e s) \<noteq> OPEN"
    and "pendingMessages (step thr e s) =
           take MAX_PENDING_MESSAGES (pendingMessages s @ client_frames [e])"
    and "sent_to targetWebSocket (calls (step thr e s)) = sent_to targetWebSocket (calls s)"
  using assms
  by (cases e; simp add: handler_defs closing_state_def sent_to_append MAX_PENDING_MESSAGES_def)+

lemma take_take_append: "take n (take n xs @ ys) = take n (xs @ ys)"
  by (simp add: min_def)

lemma client_frames_Cons: "client_frames (e # es) = client_frames [e] @ client_frames es"
  by (cases e) simp_all

lemma connecting_run:
  assumes "TargetOpen \<notin> set es" "target_readyState s \<noteq> OPEN"
    "length (pendingMessages s) \<le> MAX_PENDING_MESSAGES"
  shows "target_readyState (run thr es s) \<noteq> OPEN
     \<and> pendingMessages (run thr es s) =
           take MAX_PENDING_MESSAGES (pendingMessages s @ client_frames es)
     \<and> sent_to targetWebSocket (calls (run thr es s)) = sent_to targetWebSocket (calls s)"
  using assms
proof (induction es arbitrary: s)
  case Nil
  then show ?case by simp
next
  case (Cons e es)
  have e: "e \<noteq> TargetOpen" and es: "TargetOpen \<notin> set es"
    using Cons.prems(1) by auto
  note st = connecting_step [OF e Cons.prems(2) Cons.prems(3), of thr]
  have len: "length (pendingMessages (step thr e s)) \<le> MAX_PENDING_MESSAGES"
    using Cons.prems(3) by (rule pending_bounded_step)
  note ih = Cons.IH [OF es st(1) len]
  have "pendingMessages (run thr es (step thr e s)) =
          take MAX_PENDING_MESSAGES
            (take MAX_PENDING_MESSAGES (pendingMessages s @ client_frames [e]) @ client_frames es)"
    using ih st(2) by simp
  also have "\<dots> = take MAX_PENDING_MESSAGES ((pendingMessages s @ client_frames [e]) @ client_frames es)"
    by (rule take_take_append)
  also have "\<dots> = take MAX_PENDING_MESSAGES (pendingMessages s @ client_frames (e # es))"
    using client_frames_Cons [of e es] by simp
  finally have p: "pendingMessages (run thr (e # es) s) =
      take MAX_PENDING_MESSAGES (pendingMessages s @ client_frames (e # es))"
    by simp
  from ih st(3) have "target_readyState (run thr (e # es) s) \<noteq> OPEN"
    and "sent_to targetWebSocket (calls (run thr (e # es) s)) = sent_to targetWebSocket (calls s)"
    by simp_all
  with p show ?case by blast
qed

lemma overflow_closes_client:
  assumes "TargetOpen \<notin> set es" "target_readyState s \<noteq> OPEN"
    "length (pendingMessages s) \<le> MAX_PENDING_MESSAGES"
    "MAX_PENDING_MESSAGES < length (pendingMessages s) + length (client_frames es)"
  shows "(1008, ''Too many pending messages'') \<in> set (closes_of proxy (calls (run thr es s)))"
  using assms
proof (induction es arbitrary: s)
  case Nil
  then show ?case by simp
next
  case (Cons e es)
  have e: "e \<noteq> TargetOpen" and es: "TargetOpen \<notin> set es"
    using Cons.prems(1) by auto
  note st = connecting_step [OF e Cons.prems(2) Cons.prems(3), of thr]
  have len: "length (pendingMessages (step thr e s)) \<le> MAX_PENDING_MESSAGES"
    using Cons.prems(3) by (rule pending_bounded_step)
  show ?case
  proof (cases "is_client_frame e \<and> length (pendingMessages s) = MAX_PENDING_MESSAGES")
    case True
    then obtain m where m: "e = ProxyMessage m" by (cases e) simp_all
    have now: "calls (step thr e s) = calls s @ [Close proxy 1008 ''Too many pending messages'']"
      using True Cons.prems(2) m by (simp add: handler_defs)
    obtain cs where "calls (run thr es (step thr e s)) = calls (step thr e s) @ cs"
      using calls_run_grow by blast
    with now show ?thesis by (simp add: closes_of_append)
  next
    case False
    have "length (pendingMessages (step thr e s)) + length (client_frames es)
            = length (pendingMessages s) + length (client_frames (e # es))"
      using False Cons.prems(3) st(2)
      by (cases e) (simp_all add: min_def)
    with Cons.prems(4)
    have "MAX_PENDING_MESSAGES < length (pendingMessages (step thr e s)) + length (client_frames es)"
      by simp
    from Cons.IH [OF es st(1) len this] show ?thesis by simp
  qed
qed

text \<open>A frame sent upstream was a client frame: every event adds to the frames sent upstream
  and the frames buffered, taken together, at most the client frame it delivers.\<close>

lemma upstream_sends_step:
  "length (sent_to targetWebSocket (calls (step thr e s))) + length (pendingMessages (step thr e s))
     \<le> length (sent_to targetWebSocket (calls s)) + length (pendingMessages s)
         + length (client_frames [e])"
  by (cases e)
     (simp_all add: handler_defs calls_send_pending send_pending_fields sent_to_append
        sent_to_map_Send)

lemma upstream_sends_run:
  "length (sent_to targetWebSocket (calls (run thr es s))) + length (pendingMessages (run thr es s))
     \<le> length (sent_to targetWebSocket (calls s)) + length (pendingMessages s)
         + length (client_frames es)"
proof (induction es arbitrary: s)
  case Nil
  then show ?case by simp
next
  case (Cons e es)
  have "length (client_frames (e # es)) = length (client_frames [e]) + length (client_frames es)"
    using client_frames_Cons [of e es] by simp
  then show ?case
    using Cons.IH [of "step thr e s"] upstream_sends_step [of thr e s] by simp
qed

text \<open>
  C1, as the code has it. Let at least \<open>MAX_PENDING_MESSAGES + 1\<close> client frames arrive in
  \<open>es1\<close>, before the upstream socket has opened, and let \<open>es2\<close> be the rest of the
  session, any events at all. Then the buffer holds at most \<open>MAX_PENDING_MESSAGES\<close>
  frames after every prefix of the session, the client socket has been closed with code
  1008, nothing has been sent upstream before the open event, and the frames sent
  upstream in the whole session number at most \<open>MAX_PENDING_MESSAGES\<close> plus the client
  frames delivered in \<open>es2\<close>: of the frames of \<open>es1\<close> at most \<open>MAX_PENDING_MESSAGES\<close>
  reach the upstream socket, and when no client frame is delivered after them, at most
  \<open>MAX_PENDING_MESSAGES\<close> frames are sent upstream at all.
\<close>

theorem C1_bounded_buffering:
  assumes "TargetOpen \<notin> set es1"
    and "MAX_PENDING_MESSAGES + 1 \<le> length (client_frames es1)"
  shows "length (pendingMessages (run thr (take k (es1 @ es2)) new_session)) \<le> MAX_PENDING_MESSAGES
     \<and> (1008, ''Too many pending messages'') \<in> set (closes_of proxy (calls (run thr es1 new_session)))
     \<and> sent_to targetWebSocket (calls (run thr es1 new_session)) = []
     \<and> length (sent_to targetWebSocket (calls (run thr (es1 @ es2) new_session)))
          \<le> MAX_PENDING_MESSAGES + length (client_frames es2)"
proof -
  have init: "target_readyState new_session \<noteq> OPEN"
    "length (pendingMessages new_session) \<le> MAX_PENDING_MESSAGES"
    "calls new_session = []" "pendingMessages new_session = []"
    by (simp_all add: new_session_def)
  have a: "length (pendingMessages (run thr (take k (es1 @ es2)) new_session)) \<le> MAX_PENDING_MESSAGES"
    by (rule pending_bounded)
  have b: "(1008, ''Too many pending messages'') \<in> set (closes_of proxy (calls (run thr es1 new_session)))"
    using assms(2) by (intro overflow_closes_client [OF assms(1) init(1) init(2)]) (simp add: init)
  have c: "sent_to targetWebSocket (calls (run thr es1 new_session)) = []"
    using connecting_run [OF assms(1) init(1) init(2), of thr] by (simp add: init)
  have "length (sent_to targetWebSocket (calls (run thr (es1 @ es2) new_session)))
          + length (pendingMessages (run thr (es1 @ es2) new_session))
      \<le> length (pendingMessages (run thr es1 new_session)) + length (client_frames es2)"
    using upstream_sends_run [of thr es2 "run thr es1 new_session"] c by (simp add: run_append)
  moreover have "length (pendingMessages (run thr es1 new_session)) \<le> MAX_PENDING_MESSAGES"
    by (rule pending_bounded)
  ultimately have d: "length (sent_to targetWebSocket (calls (run thr (es1 @ es2) new_session)))
          \<le> MAX_PENDING_MESSAGES + length (client_frames es2)" by linarith
  from a b c d show ?thesis by blast
qed

text \<open>Eleven frames in a row, then the upstream socket opens and answers.\<close>

theorem C1_bounded_buffering_witness:
  "TargetOpen \<notin> set (map ProxyMessage eleven_frames)
   \<and> MAX_PENDING_MESSAGES + 1 \<le> length (client_frames (map ProxyMessage eleven_frames))
   \<and> length (pendingMessages (run never_throws
        (take 11 (map ProxyMessage eleven_frames @ [TargetOpen, TargetMessage (Text ''ok'')]))
        new_session)) \<le> MAX_PENDING_MESSAGES
   \<and> (1008, ''Too many pending messages'')
        \<in> set (closes_of proxy (calls (run never_throws (map ProxyMessage eleven_frames) new_session)))
   \<and> length (sent_to targetWebSocket (calls (run never_throws
        (map ProxyMessage eleven_frames @ [TargetOpen, TargetMessage (Text ''ok'')]) new_session)))
        \<le> MAX_PENDING_MESSAGES"
proof -
  have h1: "TargetOpen \<notin> set (map ProxyMessage eleven_frames)"
    by (simp add: eleven_frames_def)
  have h2: "MAX_PENDING_MESSAGES + 1 \<le> length (client_frames (map ProxyMessage eleven_frames))"
    by (simp add: eleven_frames_def MAX_PENDING_MESSAGES_def)
  have h3: "length (client_frames [TargetOpen, TargetMessage (Text ''ok'')]) = 0"
    by simp
  from C1_bounded_buffering [OF h1 h2, of never_throws 11 "[TargetOpen, TargetMessage (Text ''ok'')]"]
    h1 h2 h3
  show ?thesis by simp
qed

text \<open>
  C1 as stated bounds the frames ever sent upstream by \<open>MAX_PENDING_MESSAGES\<close>. The
  message listener keeps no record of the overflow: after eleven frames, the 1008 close
  and the open event, a twelfth client frame finds the upstream socket open and is
  forwarded, so eleven frames have been sent upstream.
\<close>

theorem C1_cutoff_counterexample:
  "TargetOpen \<notin> set (map ProxyMessage eleven_frames)
   \<and> length (client_frames (map ProxyMessage eleven_frames)) = MAX_PENDING_MESSAGES + 1
   \<and> (1008, ''Too many pending messages'')
        \<in> set (closes_of proxy (calls (run never_throws (map ProxyMessage eleven_frames) new_session)))
   \<and> sent_to targetWebSocket (calls (run never_throws
        (map ProxyMessage eleven_frames @ [TargetOpen, ProxyMessage (Text ''f12'')]) new_session))
        = [Text ''f1'', Text ''f2'', Text ''f3'', Text ''f4'', Text ''f5'', Text ''f6'',
           Text ''f7'', Text ''f8'', Text ''f9'', Text ''f10'', Text ''f12'']
   \<and> \<not> length (sent_to targetWebSocket (calls (run never_throws
        (map ProxyMessage eleven_frames @ [TargetOpen, ProxyMessage (Text ''f12'')]) new_session)))
        \<le> MAX_PENDING_MESSAGES"
  by (simp add: eleven_frames_def handler_defs new_session_def MAX_PENDING_MESSAGES_def
      never_throws_def closing_state_def)

text \<open>
  C6. The bound on the buffer is \<open>pending_bounded\<close> above. The second half of the claim,
  that no frame is appended to the buffer after the first drain, fails on the code: the
  listener appends whenever the upstream socket is not open, also when it was open before.
  Here one frame is buffered and drained at the open event; the upstream socket then
  closes, and the next client frame is appended to the buffer again.
\<close>

theorem C6_buffer_written_after_drain:
  "pendingMessages (run never_throws [ProxyMessage (Text ''early''), TargetOpen] new_session) = []
   \<and> sent_to targetWebSocket
        (calls (run never_throws [ProxyMessage (Text ''early''), TargetOpen] new_session))
        = [Text ''early'']
   \<and> pendingMessages (run never_throws
        [ProxyMessage (Text ''early''), TargetOpen, TargetClose 1006 [],
         ProxyMessage (Text ''late'')] new_session) = [Text ''late'']"
  by (simp add: handler_defs new_session_def MAX_PENDING_MESSAGES_def never_throws_def
      closing_state_def)

section \<open>Order of the relayed frames\<close>

text \<open>While the upstream socket is connecting and the buffer has room, the client socket
  stays open and upstream frames, should any arrive, are forwarded.\<close>

lemma upstream_frames_append:
  "upstream_frames (es @ es') = upstream_frames es @ upstream_frames es'"
  by (induction es rule: upstream_frames.induct) simp_all

lemma connecting_proxy_step:
  assumes "e \<noteq> TargetOpen" "\<not> is_close_event e" "target_readyState s \<noteq> OPEN"
    "proxy_readyState s = OPEN"
    "length (pendingMessages s) + length (client_frames [e]) \<le> MAX_PENDING_MESSAGES"
  shows "proxy_readyState (step thr e s) = OPEN"
    and "sent_to proxy (calls (step thr e s)) = sent_to proxy (calls s) @ upstream_frames [e]"
  using assms
  by (cases e; simp add: handler_defs sent_to_append MAX_PENDING_MESSAGES_def)+

lemma upstream_frames_Cons: "upstream_frames (e # es) = upstream_frames [e] @ upstream_frames es"
  by (cases e) simp_all

lemma connecting_proxy_run:
  assumes "TargetOpen \<notin> set es" "\<forall>e \<in> set es. \<not> is_close_event e"
    "target_readyState s \<noteq> OPEN" "proxy_readyState s = OPEN"
    "length (pendingMessages s) + length (client_frames es) \<le> MAX_PENDING_MESSAGES"
  shows "proxy_readyState (run thr es s) = OPEN
     \<and> sent_to proxy (calls (run thr es s)) = sent_to proxy (calls s) @ upstream_frames es"
  using assms
proof (induction es arbitrary: s)
  case Nil
  then show ?case by simp
next
  case (Cons e es)
  have e: "e \<noteq> TargetOpen" "\<not> is_close_event e"
    and es: "TargetOpen \<notin> set es" "\<forall>e \<in> set es. \<not> is_close_event e"
    using Cons.prems(1,2) by auto
  have cf: "length (client_frames (e # es)) = length (client_frames [e]) + length (client_frames es)"
    using client_frames_Cons [of e es] by simp
  have one: "length (pendingMessages s) + length (client_frames [e]) \<le> MAX_PENDING_MESSAGES"
    and bound: "length (pendingMessages s) \<le> MAX_PENDING_MESSAGES"
    using Cons.prems(5) cf by simp_all
  note px = connecting_proxy_step [OF e Cons.prems(3) Cons.prems(4) one, of thr]
  note st = connecting_step [OF e(1) Cons.prems(3) bound, of thr]
  have "length (pendingMessages (step thr e s)) + length (client_frames es) \<le> MAX_PENDING_MESSAGES"
    using st(2) Cons.prems(5) cf by simp
  from Cons.IH [OF es st(1) px(1) this] px(2)
  show ?case using upstream_frames_Cons [of e es] by simp
qed

lemma passthrough_step:
  assumes "passing_through s" "\<not> is_close_event e"
  shows "passing_through (step thr e s)"
    and "sent_to targetWebSocket (calls (step thr e s)) =
           sent_to targetWebSocket (calls s) @ client_frames [e]"
    and "sent_to proxy (calls (step thr e s)) = sent_to proxy (calls s) @ upstream_frames [e]"
  using assms
  by (cases e; simp add: passing_through_def handler_defs sent_to_append)+

lemma passthrough_run:
  assumes "passing_through s" "\<forall>e \<in> set es. \<not> is_close_event e"
  shows "passing_through (run thr es s)
     \<and> sent_to targetWebSocket (calls (run thr es s)) =
           sent_to targetWebSocket (calls s) @ client_frames es
     \<and> sent_to proxy (calls (run thr es s)) = sent_to proxy (calls s) @ upstream_frames es"
  using assms
proof (induction es arbitrary: s)
  case Nil
  then show ?case by simp
next
  case (Cons e es)
  have e: "\<not> is_close_event e" and es: "\<forall>e \<in> set es. \<not> is_close_event e"
    using Cons.prems(2) by auto
  note st = passthrough_step [OF Cons.prems(1) e, of thr]
  from Cons.IH [OF st(1) es] st(2) st(3)
  show ?case
    using upstream_frames_Cons [of e es] client_frames_Cons [of e es] by simp
qed

lemma sent_to_other_map_Send: "sent_to proxy (map (Send targetWebSocket) ms) = []"
  by (induction ms) simp_all

lemma open_after_connecting:
  assumes "proxy_readyState s = OPEN"
  shows "passing_through (step thr TargetOpen s)"
    and "sent_to targetWebSocket (calls (step thr TargetOpen s)) =
           sent_to targetWebSocket (calls s) @ pendingMessages s"
    and "sent_to proxy (calls (step thr TargetOpen s)) = sent_to proxy (calls s)"
  using assms
  by (simp_all add: passing_through_def step_def target_on_open_def calls_send_pending
      send_pending_fields sent_to_append sent_to_map_Send sent_to_other_map_Send)

text \<open>
  C2, as the code has it. Let at most \<open>MAX_PENDING_MESSAGES\<close> client frames arrive in
  \<open>es1\<close> before the upstream socket opens, and let no socket close in the session. Then
  the calls of \<^verbatim>\<open>send\<close> on the upstream socket are exactly the client frames of \<open>es1\<close> in
  their order of arrival followed by the client frames that arrive after the open event,
  in theirs; the calls of \<^verbatim>\<open>send\<close> on the client socket are exactly the upstream frames
  in their order of arrival. In any state, a frame whose destination is open causes
  exactly one call of \<^verbatim>\<open>send\<close>, appended to the calls made so far.
\<close>

theorem C2_order_preserved:
  assumes "TargetOpen \<notin> set es1"
    and "length (client_frames es1) \<le> MAX_PENDING_MESSAGES"
    and "\<forall>e \<in> set (es1 @ es2). \<not> is_close_event e"
  shows "sent_to targetWebSocket (calls (run thr (es1 @ TargetOpen # es2) new_session))
           = client_frames es1 @ client_frames es2
     \<and> sent_to proxy (calls (run thr (es1 @ TargetOpen # es2) new_session))
           = upstream_frames es1 @ upstream_frames es2
     \<and> (target_readyState s = OPEN \<longrightarrow>
          calls (step thr (ProxyMessage m) s) = calls s @ [Send targetWebSocket m])
     \<and> (proxy_readyState s = OPEN \<longrightarrow>
          calls (step thr (TargetMessage m) s) = calls s @ [Send proxy m])"
proof -
  let ?s1 = "run thr es1 new_session"
  let ?s2 = "step thr TargetOpen ?s1"
  have init: "target_readyState new_session \<noteq> OPEN" "proxy_readyState new_session = OPEN"
    "length (pendingMessages new_session) \<le> MAX_PENDING_MESSAGES"
    "calls new_session = []" "pendingMessages new_session = []"
    by (simp_all add: new_session_def)
  have nc1: "\<forall>e \<in> set es1. \<not> is_close_event e" and nc2: "\<forall>e \<in> set es2. \<not> is_close_event e"
    using assms(3) by auto
  have c1: "pendingMessages ?s1 = client_frames es1" "sent_to targetWebSocket (calls ?s1) = []"
    using connecting_run [OF assms(1) init(1) init(3), of thr] assms(2) by (simp_all add: init)
  have p1: "proxy_readyState ?s1 = OPEN" "sent_to proxy (calls ?s1) = upstream_frames es1"
    using connecting_proxy_run [OF assms(1) nc1 init(1) init(2), of thr] assms(2)
    by (simp_all add: init)
  note o = open_after_connecting [OF p1(1), of thr]
  note pt = passthrough_run [OF o(1) nc2, of thr]
  have run: "run thr (es1 @ TargetOpen # es2) new_session = run thr es2 ?s2"
    by (simp add: run_append)
  have a: "sent_to targetWebSocket (calls (run thr (es1 @ TargetOpen # es2) new_session))
           = client_frames es1 @ client_frames es2"
    using pt o(2) c1 by (simp add: run)
  have b: "sent_to proxy (calls (run thr (es1 @ TargetOpen # es2) new_session))
           = upstream_frames es1 @ upstream_frames es2"
    using pt o(3) p1(2) by (simp add: run)
  have c: "target_readyState s = OPEN \<longrightarrow>
          calls (step thr (ProxyMessage m) s) = calls s @ [Send targetWebSocket m]"
    by (simp add: step_def proxy_on_message_def ws_send_def)
  have d: "proxy_readyState s = OPEN \<longrightarrow>
          calls (step thr (TargetMessage m) s) = calls s @ [Send proxy m]"
    by (simp add: step_def target_on_message_def ws_send_def)
  from a b c d show ?thesis by blast
qed

theorem C2_order_preserved_witness:
  "TargetOpen \<notin> set [ProxyMessage (Text ''a''), ProxyMessage (Binary [1, 2])]
   \<and> length (client_frames [ProxyMessage (Text ''a''), ProxyMessage (Binary [1, 2])])
        \<le> MAX_PENDING_MESSAGES
   \<and> sent_to targetWebSocket (calls (run never_throws
        ([ProxyMessage (Text ''a''), ProxyMessage (Binary [1, 2])]
           @ TargetOpen # [TargetMessage (Text ''r''), ProxyMessage (Text ''c'')]) new_session))
        = [Text ''a'', Binary [1, 2], Text ''c'']
   \<and> sent_to proxy (calls (run never_throws
        ([ProxyMessage (Text ''a''), ProxyMessage (Binary [1, 2])]
           @ TargetOpen # [TargetMessage (Text ''r''), ProxyMessage (Text ''c'')]) new_session))
        = [Text ''r'']"
proof -
  have h1: "TargetOpen \<notin> set [ProxyMessage (Text ''a''), ProxyMessage (Binary [1, 2])]"
    by simp
  have h2: "length (client_frames [ProxyMessage (Text ''a''), ProxyMessage (Binary [1, 2])])
        \<le> MAX_PENDING_MESSAGES"
    by (simp add: MAX_PENDING_MESSAGES_def)
  have h3: "\<forall>e \<in> set ([ProxyMessage (Text ''a''), ProxyMessage (Binary [1, 2])]
              @ [TargetMessage (Text ''r''), ProxyMessage (Text ''c'')]). \<not> is_close_event e"
    by simp
  from C2_order_preserved [OF h1 h2 h3, of never_throws] h1 h2
  show ?thesis by simp
qed

text \<open>
  C2 as stated holds for every number of frames. Of eleven frames sent while the upstream
  socket is connecting, the eleventh is not buffered, and the upstream socket is not sent
  those eleven frames when it opens.
\<close>

theorem C2_overflow_counterexample:
  "sent_to targetWebSocket
     (calls (run never_throws (map ProxyMessage eleven_frames @ [TargetOpen]) new_session))
     = [Text ''f1'', Text ''f2'', Text ''f3'', Text ''f4'', Text ''f5'', Text ''f6'',
        Text ''f7'', Text ''f8'', Text ''f9'', Text ''f10'']
   \<and> sent_to targetWebSocket
     (calls (run never_throws (map ProxyMessage eleven_frames @ [TargetOpen]) new_session))
     \<noteq> eleven_frames"
  by (simp add: eleven_frames_def handler_defs new_session_def MAX_PENDING_MESSAGES_def
      never_throws_def)

section \<open>Liveness and the timer\<close>

lemma open_clears_timer_step: "open_clears_timer s \<Longrightarrow> open_clears_timer (step thr e s)"
  by (cases e)
     (auto simp add: open_clears_timer_def handler_defs send_pending_fields closing_state_def)

lemma open_clears_timer_run: "open_clears_timer s \<Longrightarrow> open_clears_timer (run thr es s)"
  by (induction es arbitrary: s) (simp_all add: open_clears_timer_step)

lemma timer_harmless_step:
  "open_clears_timer s \<Longrightarrow> timer_harmless s \<Longrightarrow> timer_harmless (step thr e s)"
  by (cases e)
     (auto simp add: open_clears_timer_def timer_harmless_def handler_defs send_pending_fields)

lemma timer_harmless_run:
  "open_clears_timer s \<Longrightarrow> timer_harmless s \<Longrightarrow> timer_harmless (run thr es s)"
  by (induction es arbitrary: s) (simp_all add: open_clears_timer_step timer_harmless_step)

lemma client_frame_makes_timer_harmless:
  "open_clears_timer s \<Longrightarrow> timer_harmless (step thr (ProxyMessage m) s)"
  by (auto simp add: open_clears_timer_def timer_harmless_def handler_defs MAX_PENDING_MESSAGES_def)

lemma timer_harmless_fires:
  "timer_harmless s \<Longrightarrow> step thr TimerFired s = s\<lparr>timeoutId := False\<rparr>"
  by (simp add: timer_harmless_def step_def timeout_callback_def)

text \<open>
  C4. In a session in which a client frame has arrived, the firing of the establishment
  timer changes nothing but the timer itself: it makes no call on either socket and
  leaves both sockets as they are.
\<close>

theorem C4_liveness_overrides_timeout:
  assumes "ProxyMessage m \<in> set es"
  shows "step thr TimerFired (run thr es new_session) = (run thr es new_session)\<lparr>timeoutId := False\<rparr>"
proof -
  from assms obtain es1 es2 where es: "es = es1 @ ProxyMessage m # es2"
    by (meson split_list)
  have "open_clears_timer new_session"
    by (simp add: open_clears_timer_def new_session_def)
  then have a: "open_clears_timer (run thr es1 new_session)"
    by (rule open_clears_timer_run)
  then have "timer_harmless (step thr (ProxyMessage m) (run thr es1 new_session))"
    by (rule client_frame_makes_timer_harmless)
  with a have "timer_harmless (run thr es2 (step thr (ProxyMessage m) (run thr es1 new_session)))"
    by (intro timer_harmless_run open_clears_timer_step)
  then have "timer_harmless (run thr es new_session)"
    by (simp add: es run_append)
  then show ?thesis by (rule timer_harmless_fires)
qed

theorem C4_liveness_overrides_timeout_witness:
  "ProxyMessage (Text ''hi'') \<in> set [ProxyMessage (Text ''hi'')]
   \<and> timeoutId (run never_throws [ProxyMessage (Text ''hi'')] new_session)
   \<and> step never_throws TimerFired (run never_throws [ProxyMessage (Text ''hi'')] new_session)
        = new_session\<lparr>pendingMessages := [Text ''hi''], timeoutId := False\<rparr>
   \<and> calls (step never_throws TimerFired (run never_throws [ProxyMessage (Text ''hi'')] new_session))
        = []"
proof -
  have h: "ProxyMessage (Text ''hi'') \<in> set [ProxyMessage (Text ''hi'')]"
    by simp
  have r: "run never_throws [ProxyMessage (Text ''hi'')] new_session =
      new_session\<lparr>pendingMessages := [Text ''hi'']\<rparr>"
    by (simp add: step_def proxy_on_message_def new_session_def MAX_PENDING_MESSAGES_def)
  have t: "step never_throws TimerFired (run never_throws [ProxyMessage (Text ''hi'')] new_session)
      = (run never_throws [ProxyMessage (Text ''hi'')] new_session)\<lparr>timeoutId := False\<rparr>"
    using h by (rule C4_liveness_overrides_timeout)
  have a: "timeoutId (run never_throws [ProxyMessage (Text ''hi'')] new_session)"
    by (simp only: r) (simp add: new_session_def)
  have b: "step never_throws TimerFired (run never_throws [ProxyMessage (Text ''hi'')] new_session)
        = new_session\<lparr>pendingMessages := [Text ''hi''], timeoutId := False\<rparr>"
    unfolding t by (simp only: r)
  have c: "calls (step never_throws TimerFired
        (run never_throws [ProxyMessage (Text ''hi'')] new_session)) = []"
    by (simp only: b) (simp add: new_session_def)
  from h a b c show ?thesis by blast
qed

section \<open>Sends and their failures\<close>





section \<open>Closing before the upstream socket opens\<close>

text \<open>
  C10. A close event on the client socket while the upstream socket is connecting makes
  no call on the upstream socket and leaves it connecting. At any later point of the
  session, an event other than a client close that adds a close call on the upstream
  socket is the firing of the still scheduled timer on an empty buffer, and the call is
  the timer's, with code 1000.
\<close>

theorem C10_client_close_while_connecting:
  "target_readyState s = CONNECTING \<Longrightarrow>
     calls (step thr (ProxyClose code reason) s) = calls s
     \<and> target_readyState (step thr (ProxyClose code reason) s) = CONNECTING
     \<and> (\<not> is_proxy_close e \<and>
          closes_of targetWebSocket (calls (step thr e (run thr es (step thr (ProxyClose code reason) s))))
            \<noteq> closes_of targetWebSocket (calls (run thr es (step thr (ProxyClose code reason) s)))
        \<longrightarrow> e = TimerFired
            \<and> timeoutId (run thr es (step thr (ProxyClose code reason) s))
            \<and> pendingMessages (run thr es (step thr (ProxyClose code reason) s)) = []
            \<and> calls (step thr e (run thr es (step thr (ProxyClose code reason) s))) =
                calls (run thr es (step thr (ProxyClose code reason) s))
                  @ [Close targetWebSocket 1000 ''No activity after connection''])"
proof -
  assume c: "target_readyState s = CONNECTING"
  have only_timer: "\<not> is_proxy_close e \<and>
      closes_of targetWebSocket (calls (step thr e t)) \<noteq> closes_of targetWebSocket (calls t)
      \<longrightarrow> e = TimerFired \<and> timeoutId t \<and> pendingMessages t = []
          \<and> calls (step thr e t) = calls t @ [Close targetWebSocket 1000 ''No activity after connection'']"
    for t
    by (cases e)
       (auto simp add: handler_defs calls_send_pending closes_of_append closes_of_map_Send
          split: if_splits)
  from c have "calls (step thr (ProxyClose code reason) s) = calls s
     \<and> target_readyState (step thr (ProxyClose code reason) s) = CONNECTING"
    by (simp add: step_def proxy_on_close_def)
  with only_timer show ?thesis by blast
qed

theorem C10_client_close_while_connecting_witness:
  "target_readyState new_session = CONNECTING
   \<and> calls (step never_throws (ProxyClose 1000 ''bye'') new_session) = []
   \<and> target_readyState (step never_throws (ProxyClose 1000 ''bye'') new_session) = CONNECTING
   \<and> \<not> is_proxy_close TimerFired
   \<and> closes_of targetWebSocket (calls (step never_throws TimerFired
        (run never_throws [] (step never_throws (ProxyClose 1000 ''bye'') new_session))))
        = [(1000, ''No activity after connection'')]
   \<and> pendingMessages (run never_throws [] (step never_throws (ProxyClose 1000 ''bye'') new_session))
        = []"
proof -
  have h: "target_readyState new_session = CONNECTING"
    by (simp add: new_session_def)
  from C10_client_close_while_connecting [OF h, of never_throws 1000 "''bye''" TimerFired "[]"] h
  show ?thesis
    by (simp add: new_session_def step_def proxy_on_close_def timeout_callback_def ws_close_def)
qed

section \<open>Refusing a request that is no upgrade\<close>

text \<open>
  C9, as the code has it. A request whose Upgrade header is not the string
  \<^verbatim>\<open>websocket\<close> (or is absent) is never given to the socket handler: \<^verbatim>\<open>fetch\<close> answers
  it from the API guard, the index page or a static asset, and with 404 "Not found" when
  none of these matches. The answer 400 "Expected WebSocket connection" is what
  \<^verbatim>\<open>handleWebSocket\<close> returns when it is called with such a request, which \<^verbatim>\<open>fetch\<close>
  never does: a request \<^verbatim>\<open>fetch\<close> gives to the socket handler is upgraded with status
  101, and no answer of \<^verbatim>\<open>fetch\<close> is the socket handler's refusal.
\<close>

theorem C9_not_an_upgrade:
  "(upgrade req \<noteq> Some ''websocket'' \<longrightarrow>
      fetch kv outcome req \<noteq> WebSocketResult r
      \<and> handleWebSocket req =
           Refused \<lparr>status = 400, body = Some ''Expected WebSocket connection'',
                    headers = [], webSocket = False\<rparr>)
   \<and> (upgrade req \<noteq> Some ''websocket''
       \<and> \<not> suffix ''/chat/completions'' (pathname req) \<and> \<not> suffix ''/embeddings'' (pathname req)
       \<and> \<not> suffix ''/models'' (pathname req)
       \<and> pathname req \<noteq> ''/'' \<and> pathname req \<noteq> ''/index.html''
       \<and> kv (drop 1 (pathname req)) = None \<longrightarrow>
      fetch kv outcome req =
        NotFoundResult \<lparr>status = 404, body = Some ''Not found'', headers = [],
                        webSocket = False\<rparr>)
   \<and> (upgrade req = Some ''websocket'' \<longrightarrow>
      fetch kv outcome req =
        WebSocketResult
          (Upgraded \<lparr>status = 101, body = None, headers = [], webSocket = True\<rparr>
             (''wss://generativelanguage.googleapis.com'' @ pathname req @ search req)
             new_session))
   \<and> fetch kv outcome req \<noteq> WebSocketResult (Refused resp)"
  by (auto simp add: fetch_def fetch_route_def handleWebSocket_def split: option.splits)

theorem C9_not_an_upgrade_witness:
  "upgrade \<lparr>upgrade = None, pathname = ''/ws'', search = ''''\<rparr> \<noteq> Some ''websocket''
   \<and> handleWebSocket \<lparr>upgrade = None, pathname = ''/ws'', search = ''''\<rparr> =
       Refused \<lparr>status = 400, body = Some ''Expected WebSocket connection'',
                headers = [], webSocket = False\<rparr>
   \<and> fetch (\<lambda>key. None) DeadlineElapsed \<lparr>upgrade = None, pathname = ''/ws'', search = ''''\<rparr> =
       NotFoundResult \<lparr>status = 404, body = Some ''Not found'', headers = [], webSocket = False\<rparr>
   \<and> upgrade \<lparr>upgrade = Some ''websocket'', pathname = ''/ws'', search = ''?key=k''\<rparr>
       = Some ''websocket''
   \<and> fetch (\<lambda>key. None) DeadlineElapsed
        \<lparr>upgrade = Some ''websocket'', pathname = ''/ws'', search = ''?key=k''\<rparr> =
       WebSocketResult
         (Upgraded \<lparr>status = 101, body = None, headers = [], webSocket = True\<rparr>
            ''wss://generativelanguage.googleapis.com/ws?key=k'' new_session)"
  using C9_not_an_upgrade [of "\<lparr>upgrade = None, pathname = ''/ws'', search = ''''\<rparr>"
      "\<lambda>key. None" DeadlineElapsed]
    C9_not_an_upgrade [of "\<lparr>upgrade = Some ''websocket'', pathname = ''/ws'', search = ''?key=k''\<rparr>"
      "\<lambda>key. None" DeadlineElapsed]
  by (simp add: suffix_def)

text \<open>
  C9 as stated has every request that does not declare the upgrade answered with 400. A
  request for \<^verbatim>\<open>/ws\<close> without an Upgrade header, and one whose header is spelled
  \<^verbatim>\<open>WebSocket\<close>, are answered with 404 "Not found".
\<close>

theorem C9_not_found_counterexample:
  "fetch (\<lambda>key. None) DeadlineElapsed \<lparr>upgrade = None, pathname = ''/ws'', search = ''''\<rparr> =
       NotFoundResult \<lparr>status = 404, body = Some ''Not found'', headers = [], webSocket = False\<rparr>
   \<and> fetch (\<lambda>key. None) DeadlineElapsed
        \<lparr>upgrade = Some ''WebSocket'', pathname = ''/ws'', search = ''''\<rparr> =
       NotFoundResult \<lparr>status = 404, body = Some ''Not found'', headers = [], webSocket = False\<rparr>"
  by (simp add: fetch_def fetch_route_def suffix_def)

section \<open>The outcome of the guarded HTTP call\<close>

text \<open>
  C7, as the code has it. When the deadline elapses first the answer is status 500 with
  the text "API request timeout". When the forwarding call rejects first with an instance
  of \<^verbatim>\<open>Error\<close>, the answer carries its message and its status, 500 when the status is
  absent or 0; when it rejects with any other value that is not null or undefined, the
  answer carries the text "Unknown error occurred" instead of a message. Both are plain
  text with content type \<^verbatim>\<open>text/plain;charset=UTF-8\<close>, and both are returned, not thrown,
  when the status is one a response with a body can have. A response of the forwarding
  call is returned as it is.
\<close>

theorem C7_guard:
  "handleAPIRequest DeadlineElapsed =
      Inr \<lparr>status = 500, body = Some ''API request timeout'',
           headers = [(''content-type'', ''text/plain;charset=UTF-8'')], webSocket = False\<rparr>
   \<and> (response_status_ok (status_or_500 st) \<longrightarrow>
        handleAPIRequest (Rejected (ErrorInstance msg st)) =
          Inr \<lparr>status = status_or_500 st, body = Some msg,
               headers = [(''content-type'', ''text/plain;charset=UTF-8'')], webSocket = False\<rparr>)
   \<and> (response_status_ok (status_or_500 st) \<longrightarrow>
        handleAPIRequest (Rejected (PlainValue other st)) =
          Inr \<lparr>status = status_or_500 st, body = Some ''Unknown error occurred'',
               headers = [(''content-type'', ''text/plain;charset=UTF-8'')], webSocket = False\<rparr>)
   \<and> handleAPIRequest (Resolved r) = Inr r"
  by (simp add: handleAPIRequest_def catch_block_def new_Response_def response_status_ok_def
      status_or_500_def)

theorem C7_guard_witness:
  "response_status_ok (status_or_500 (Some 503)) \<and> response_status_ok (status_or_500 None)
   \<and> handleAPIRequest (Rejected (ErrorInstance ''overloaded'' (Some 503))) =
        Inr \<lparr>status = 503, body = Some ''overloaded'',
             headers = [(''content-type'', ''text/plain;charset=UTF-8'')], webSocket = False\<rparr>
   \<and> handleAPIRequest (Rejected (ErrorInstance ''boom'' None)) =
        Inr \<lparr>status = 500, body = Some ''boom'',
             headers = [(''content-type'', ''text/plain;charset=UTF-8'')], webSocket = False\<rparr>
   \<and> handleAPIRequest (Rejected (PlainValue None None)) =
        Inr \<lparr>status = 500, body = Some ''Unknown error occurred'',
             headers = [(''content-type'', ''text/plain;charset=UTF-8'')], webSocket = False\<rparr>"
  using C7_guard [of "Some 503" "''overloaded''"] C7_guard [of None "''boom''" None]
  by (simp add: response_status_ok_def status_or_500_def)

text \<open>
  C7 as stated returns the message of whatever the forwarding call rejects with, and
  never throws. A rejection with a plain object carrying a message is answered with the
  fixed text; a rejection with null, or with a status no response can have, makes the
  catch block itself throw.
\<close>

theorem C7_rejection_counterexample:
  "handleAPIRequest (Rejected (PlainValue (Some ''quota exceeded'') (Some 429))) =
      Inr \<lparr>status = 429, body = Some ''Unknown error occurred'',
           headers = [(''content-type'', ''text/plain;charset=UTF-8'')], webSocket = False\<rparr>
   \<and> handleAPIRequest (Rejected Nullish) = Inl TypeError
   \<and> handleAPIRequest (Rejected (ErrorInstance ''teapot'' (Some 1000))) = Inl RangeError"
  by (simp add: handleAPIRequest_def catch_block_def new_Response_def status_or_500_def)

end
